theory Spec2Isabelle
  imports Main "HOL-Library.Sublist" "HOL-Library.Char_ord" "HOL-Library.List_Lexorder"
begin

section \<open>Data model\<close>

text \<open>
  The model follows \<^verbatim>\<open>streamlit_app.py\<close>, class \<^verbatim>\<open>TimeSeriesAnalysis\<close>.

  Exceptions are values. \<^verbatim>\<open>KeyError\<close> is what pandas raises for a column label that a
  table does not have, \<^verbatim>\<open>ValueError\<close> is the one class that \<^verbatim>\<open>decompose_series\<close>
  catches, \<^verbatim>\<open>TypeError\<close> stands for the classes it does not catch.
\<close>

datatype exn = KeyError | ValueError | TypeError

text \<open>
  \<^verbatim>\<open>isinstance(series.index, pd.DatetimeIndex)\<close> asks for the class of an index, not for
  its labels, so the class is a field of its own.
\<close>

datatype index_type = DatetimeIndex | ObjectIndex

text \<open>
  A pandas DataFrame: the class of its index, its column labels, and its rows, each the
  label of the row in the index and the cells of the row by column label. A cell is
  \<open>None\<close> when the value is missing (NaN). Cells of labels outside \<open>columns\<close> are not
  part of the table. Column labels are distinct, as \<^verbatim>\<open>pd.read_csv\<close> makes them.

  The index may have a name: \<^verbatim>\<open>load_data\<close> (line 22) makes the column
  \<^verbatim>\<open>ANO_MES\<close> the index, which takes it out of the columns and leaves its label as the
  name of the index. So the name of the index is no column label.
\<close>

record ('l, 'a) data_frame =
  index_type :: index_type
  index_name :: "string option"
  columns :: "string list"
  rows :: "('l \<times> (string \<Rightarrow> 'a option)) list"

text \<open>A pandas Series: the class of its index and its (label, value) pairs.\<close>

record ('l, 'a) series =
  series_index_type :: index_type
  items :: "('l \<times> 'a option) list"

text \<open>
  The \<^verbatim>\<open>DecomposeResult\<close> that \<^verbatim>\<open>seasonal_decompose\<close> returns: four series, read by the
  attributes \<^verbatim>\<open>observed\<close>, \<^verbatim>\<open>seasonal\<close>, \<^verbatim>\<open>trend\<close> and \<^verbatim>\<open>resid\<close>.
\<close>

record ('l, 'a) decompose_result =
  observed :: "('l, 'a) series"
  seasonal :: "('l, 'a) series"
  trend :: "('l, 'a) series"
  resid :: "('l, 'a) series"

text \<open>
  \<^verbatim>\<open>seasonal_decompose(x, model='additive', period=p)\<close> belongs to statsmodels, not to
  the repository: the engine takes it as a parameter. It returns a result or raises.
\<close>

type_synonym ('l, 'a) decomposer =
  "('l, 'a) series \<Rightarrow> int \<Rightarrow> exn + ('l, 'a) decompose_result"

text \<open>
  An object of class \<^verbatim>\<open>TimeSeriesAnalysis\<close>. The field \<open>df\<close> is a reference: the address
  of the caller's table in the store of frames. \<open>results\<close> is the dict from group key to
  decomposition, \<open>successful_groups\<close> the list of keys.
\<close>

record ('l, 'a) time_series_analysis =
  df :: nat
  groupby_col :: string
  value_col :: string
  period :: int
  results :: "'a \<rightharpoonup> ('l, 'a) decompose_result"
  successful_groups :: "'a list"

text \<open>
  \<^verbatim>\<open>__init__(self, df, groupby_col, value_col, period=12)\<close>, lines 29 to 35. The
  application calls it with three arguments, so with period 12.
\<close>

definition TimeSeriesAnalysis ::
  "nat \<Rightarrow> string \<Rightarrow> string \<Rightarrow> int \<Rightarrow> ('l, 'a) time_series_analysis" where
  "TimeSeriesAnalysis table g v p =
     \<lparr>df = table, groupby_col = g, value_col = v, period = p,
      results = Map.empty, successful_groups = []\<rparr>"

section \<open>The pandas operations the engine calls\<close>

text \<open>
  The store of frames: every DataFrame object lives at an address, the position in a
  list. A new object is appended; an in-place method overwrites one position.
\<close>

definition alloc :: "'f list \<Rightarrow> 'f \<Rightarrow> 'f list \<times> nat" where
  "alloc h f = (h @ [f], length h)"

text \<open>\<^verbatim>\<open>data[[c]]\<close>: a new table with the one column, or KeyError.\<close>

definition getitem_list ::
  "('l, 'a) data_frame \<Rightarrow> string \<Rightarrow> exn + ('l, 'a) data_frame" where
  "getitem_list f c =
     (if c \<in> set (columns f) then Inr (f\<lparr>columns := [c]\<rparr>) else Inl KeyError)"

text \<open>\<^verbatim>\<open>data[c]\<close>: the column as a series, or KeyError.\<close>

definition getitem ::
  "('l, 'a) data_frame \<Rightarrow> string \<Rightarrow> exn + ('l, 'a) series" where
  "getitem f c =
     (if c \<in> set (columns f)
      then Inr \<lparr>series_index_type = index_type f,
                items = map (\<lambda>(l, r). (l, r c)) (rows f)\<rparr>
      else Inl KeyError)"

text \<open>\<^verbatim>\<open>.copy()\<close>: the contents of the new object (the loop allocates it).\<close>

definition copy_frame :: "('l, 'a) data_frame \<Rightarrow> ('l, 'a) data_frame" where
  "copy_frame f = f"

text \<open>\<^verbatim>\<open>dropna\<close>: the rows with no missing value in any column.\<close>

definition dropna :: "('l, 'a) data_frame \<Rightarrow> ('l, 'a) data_frame" where
  "dropna f =
     f\<lparr>rows := filter (\<lambda>(l, r). list_all (\<lambda>c. r c \<noteq> None) (columns f)) (rows f)\<rparr>"

text \<open>
  \<^verbatim>\<open>df.groupby(c)\<close> with the defaults \<^verbatim>\<open>sort=True\<close> and \<^verbatim>\<open>dropna=True\<close>, iterated.
  pandas takes \<open>c\<close> for the label of a column and, when the table has no such column,
  for the name of the index; it raises KeyError when \<open>c\<close> is neither. The key of a row
  is its cell in the column, or its label in the index. The labels of the index can so
  become group keys: here they are values of the kind the cells hold, \<open>None\<close> for a
  missing label (NaT). There is one pair per distinct non-missing key, in ascending
  order of the keys, with the rows of that key in their order in the table.

  pandas refuses as ambiguous a label that is both a column and the name of the index;
  the tables here have none (see \<open>data_frame\<close>), so the column is looked for first.
\<close>

definition group_key ::
  "('a option, 'a) data_frame \<Rightarrow> string \<Rightarrow>
   'a option \<times> (string \<Rightarrow> 'a option) \<Rightarrow> 'a option" where
  "group_key f c =
     (\<lambda>(l, r). if c \<in> set (columns f) then r c
               else if index_name f = Some c then l else None)"

definition group_keys :: "('a option, 'a::linorder) data_frame \<Rightarrow> string \<Rightarrow> 'a list" where
  "group_keys f c = sort (remdups (List.map_filter (group_key f c) (rows f)))"

definition get_group ::
  "('a option, 'a) data_frame \<Rightarrow> string \<Rightarrow> 'a \<Rightarrow> ('a option, 'a) data_frame" where
  "get_group f c k = f\<lparr>rows := filter (\<lambda>row. group_key f c row = Some k) (rows f)\<rparr>"

definition grouped_frames ::
  "('a option, 'a::linorder) data_frame \<Rightarrow> string \<Rightarrow>
   ('a \<times> ('a option, 'a) data_frame) list" where
  "grouped_frames f c = map (\<lambda>k. (k, get_group f c k)) (group_keys f c)"

definition groupby ::
  "('a option, 'a::linorder) data_frame \<Rightarrow> string \<Rightarrow>
   exn + ('a \<times> ('a option, 'a) data_frame) list" where
  "groupby f c =
     (if c \<in> set (columns f) \<or> index_name f = Some c then Inr (grouped_frames f c)
      else Inl KeyError)"

section \<open>decompose_series\<close>

text \<open>
  The loop of lines 39 to 47 over the groups that are left, on the store \<open>h\<close> and the
  object \<open>s\<close>. It returns the store, the object, and the exception that left the loop,
  if one did. Line 40 makes three objects: the group's table, its projection, the copy.
  Line 41 overwrites the copy. The loop variable \<^verbatim>\<open>group\<close> is \<open>gkey\<close> here. Lines 42 to 47: a ValueError of line 43 is dropped, any
  other exception leaves the method.
\<close>

fun decompose_loop ::
  "('l, 'a) decomposer \<Rightarrow> ('a \<times> ('l, 'a) data_frame) list \<Rightarrow>
   ('l, 'a) data_frame list \<times> ('l, 'a) time_series_analysis \<Rightarrow>
   (('l, 'a) data_frame list \<times> ('l, 'a) time_series_analysis) \<times> exn option" where
  "decompose_loop sd [] (h, s) = ((h, s), None)"
| "decompose_loop sd ((gkey, data) # rest) (h, s) =
     (let (h0, a0) = alloc h data in
      case getitem_list (h0 ! a0) (value_col s) of
        Inl e \<Rightarrow> ((h0, s), Some e)
      | Inr projected \<Rightarrow>
          let (h1, a1) = alloc h0 projected;
              (h2, a2) = alloc h1 (copy_frame (h1 ! a1));
              h3 = h2[a2 := dropna (h2 ! a2)]
          in case getitem (h3 ! a2) (value_col s) of
               Inl e \<Rightarrow>
                 if e = ValueError then decompose_loop sd rest (h3, s)
                 else ((h3, s), Some e)
             | Inr x \<Rightarrow>
                 (case sd x (period s) of
                    Inl e \<Rightarrow>
                      if e = ValueError then decompose_loop sd rest (h3, s)
                      else ((h3, s), Some e)
                  | Inr decomposition \<Rightarrow>
                      decompose_loop sd rest
                        (h3, s\<lparr>results := (results s)(gkey \<mapsto> decomposition),
                               successful_groups := successful_groups s @ [gkey]\<rparr>)))"

text \<open>
  Lines 37 to 47. The table is read at the address \<open>df s\<close>, the address of an object
  of the store: a Python reference does not dangle.
\<close>

definition decompose_series ::
  "('a option, 'a::linorder) decomposer \<Rightarrow> ('a option, 'a) data_frame list \<Rightarrow>
   ('a option, 'a) time_series_analysis \<Rightarrow>
   (('a option, 'a) data_frame list \<times> ('a option, 'a) time_series_analysis) \<times> exn option" where
  "decompose_series sd h s =
     (case groupby (h ! df s) (groupby_col s) of
        Inl e \<Rightarrow> ((h, s), Some e)
      | Inr grouped \<Rightarrow> decompose_loop sd grouped (h, s))"

section \<open>plot_decomposition\<close>

text \<open>
  Lines 56 to 59 for one series: an index that is not a DatetimeIndex is replaced by
  \<^verbatim>\<open>pd.to_datetime(series.index, format="%Y-%m", errors="coerce")\<close>, which converts
  label by label; \<open>to_datetime\<close> is the conversion of one label.
\<close>

definition ensure_datetime ::
  "('l \<Rightarrow> 'l) \<Rightarrow> ('l, 'a) series \<Rightarrow> ('l, 'a) series" where
  "ensure_datetime to_datetime x =
     (if series_index_type x \<noteq> DatetimeIndex
      then \<lparr>series_index_type = DatetimeIndex,
            items = map (\<lambda>(l, v). (to_datetime l, v)) (items x)\<rparr>
      else x)"

text \<open>
  What the user sees: the warning of line 51 for the group, or the figure of line 125.
\<close>

datatype ('a, 'fig) shown = Warning 'a | Chart 'fig

text \<open>
  Lines 49 to 125. Lines 61 to 125 build the figure from the decomposition and show it;
  plotly and streamlit are not part of the repository, so \<open>plotly_chart\<close> is a parameter
  that reads the decomposition and returns the figure or raises. The series are the
  objects the result holds, so the assignment of line 59 changes the stored result.
\<close>

definition plot_decomposition ::
  "('l \<Rightarrow> 'l) \<Rightarrow> (('l, 'a) decompose_result \<Rightarrow> exn + 'fig) \<Rightarrow>
   ('l, 'a) time_series_analysis \<Rightarrow> 'a \<Rightarrow>
   ('l, 'a) time_series_analysis \<times> (exn + ('a, 'fig) shown)" where
  "plot_decomposition to_datetime plotly_chart s gkey =
     (case results s gkey of
        None \<Rightarrow> (s, Inr (Warning gkey))
      | Some decomposition \<Rightarrow>
          let d = \<lparr>observed = ensure_datetime to_datetime (observed decomposition),
                   seasonal = ensure_datetime to_datetime (seasonal decomposition),
                   trend = ensure_datetime to_datetime (trend decomposition),
                   resid = ensure_datetime to_datetime (resid decomposition)\<rparr>;
              s' = s\<lparr>results := (results s)(gkey \<mapsto> d)\<rparr>
          in (case plotly_chart d of
                Inl e \<Rightarrow> (s', Inl e)
              | Inr fig \<Rightarrow> (s', Inr (Chart fig))))"

section \<open>What the loop computes\<close>

text \<open>
  The series that line 43 hands to \<^verbatim>\<open>seasonal_decompose\<close> for one group's table: the
  column \<open>v\<close> without the rows where it is missing, every other row as it is.
\<close>

definition observed_series :: "('l, 'a) data_frame \<Rightarrow> string \<Rightarrow> ('l, 'a) series" where
  "observed_series data v =
     \<lparr>series_index_type = index_type data,
      items = map (\<lambda>(l, r). (l, r v)) (filter (\<lambda>(l, r). r v \<noteq> None) (rows data))\<rparr>"

text \<open>
  The loop without the store: the (key, decomposition) pairs it stores, in the order it
  stores them, and the exception that ends it, if one does.
\<close>

fun attempts ::
  "('l, 'a) decomposer \<Rightarrow> int \<Rightarrow> string \<Rightarrow> ('a \<times> ('l, 'a) data_frame) list \<Rightarrow>
   ('a \<times> ('l, 'a) decompose_result) list \<times> exn option" where
  "attempts sd p v [] = ([], None)"
| "attempts sd p v ((k, data) # rest) =
     (if v \<notin> set (columns data) then ([], Some KeyError)
      else case sd (observed_series data v) p of
             Inl e \<Rightarrow> if e = ValueError then attempts sd p v rest else ([], Some e)
           | Inr d \<Rightarrow> (let (xs, e) = attempts sd p v rest in ((k, d) # xs, e)))"

definition store_all ::
  "('a \<times> 'd) list \<Rightarrow> ('a \<rightharpoonup> 'd) \<Rightarrow> ('a \<rightharpoonup> 'd)" where
  "store_all xs m = fold (\<lambda>(k, d) m. m(k \<mapsto> d)) xs m"

text \<open>The three parts of what \<open>decompose_series\<close> returns.\<close>

definition store_after :: "('h \<times> 's) \<times> exn option \<Rightarrow> 'h" where
  "store_after r = fst (fst r)"

definition state_after :: "('h \<times> 's) \<times> exn option \<Rightarrow> 's" where
  "state_after r = snd (fst r)"

definition raised :: "('h \<times> 's) \<times> exn option \<Rightarrow> exn option" where
  "raised r = snd r"

section \<open>The notions of the specification\<close>

text \<open>
  The distinct groups of a table: the non-missing values of the grouping key, which is
  the column \<open>g\<close> or, when \<open>g\<close> names the index, the index.
\<close>

definition distinct_groups :: "('a option, 'a) data_frame \<Rightarrow> string \<Rightarrow> 'a set" where
  "distinct_groups f g = set (List.map_filter (group_key f g) (rows f))"

text \<open>The number of non-missing observations of group \<open>k\<close> in column \<open>v\<close>.\<close>

definition non_missing_observations ::
  "('a option, 'a) data_frame \<Rightarrow> string \<Rightarrow> string \<Rightarrow> 'a \<Rightarrow> nat" where
  "non_missing_observations f g v k =
     length (filter (\<lambda>(l, r). group_key f g (l, r) = Some k \<and> r v \<noteq> None) (rows f))"

text \<open>
  The series of group \<open>k\<close> with the missing values excluded: the rows of the table with
  key \<open>k\<close> and a value in column \<open>v\<close>, in the table's order, each with its own label
  and its own value.
\<close>

definition partition_series ::
  "('a option, 'a) data_frame \<Rightarrow> string \<Rightarrow> string \<Rightarrow> 'a \<Rightarrow> ('a option, 'a) series" where
  "partition_series f g v k =
     \<lparr>series_index_type = index_type f,
      items = map (\<lambda>(l, r). (l, r v))
                (filter (\<lambda>(l, r). group_key f g (l, r) = Some k \<and> r v \<noteq> None) (rows f))\<rparr>"

text \<open>The order in which the values of a list first appear.\<close>

fun first_appearance :: "'a list \<Rightarrow> 'a list" where
  "first_appearance [] = []"
| "first_appearance (x # xs) = x # filter (\<lambda>y. y \<noteq> x) (first_appearance xs)"

definition first_appearance_order :: "('a option, 'a) data_frame \<Rightarrow> string \<Rightarrow> 'a list" where
  "first_appearance_order f g = first_appearance (List.map_filter (group_key f g) (rows f))"

text \<open>
  The rule the specification gives for the decomposition of one series with period \<open>p\<close>:
  it fails, with a ValueError, exactly when the series has fewer than \<open>2 * p\<close>
  observations, and returns a result otherwise.
\<close>

definition two_complete_cycles :: "('l, 'a) decomposer \<Rightarrow> int \<Rightarrow> bool" where
  "two_complete_cycles sd p =
     (\<forall>x. sd x p = Inl ValueError \<and> int (length (items x)) < 2 * p \<or>
          (\<exists>d. sd x p = Inr d) \<and> 2 * p \<le> int (length (items x)))"

text \<open>A decomposition that raises no exception but ValueError at period \<open>p\<close>.\<close>

definition only_ValueError :: "('l, 'a) decomposer \<Rightarrow> int \<Rightarrow> bool" where
  "only_ValueError sd p = (\<forall>x e. sd x p = Inl e \<longrightarrow> e = ValueError)"

section \<open>Concrete tables\<close>

text \<open>
  Values of cells and labels: numbers, text and timestamps (month numbers). A column
  or an index holds values of one kind; across kinds, numbers come before text and
  text before timestamps.
\<close>

datatype scalar = Num int | Str string | Timestamp int

instantiation scalar :: linorder
begin

fun less_eq_scalar :: "scalar \<Rightarrow> scalar \<Rightarrow> bool" where
  "less_eq_scalar (Num a) (Num b) = (a \<le> b)"
| "less_eq_scalar (Num a) (Str t) = True"
| "less_eq_scalar (Num a) (Timestamp j) = True"
| "less_eq_scalar (Str s) (Num b) = False"
| "less_eq_scalar (Str s) (Str t) = (s \<le> t)"
| "less_eq_scalar (Str s) (Timestamp j) = True"
| "less_eq_scalar (Timestamp i) (Num b) = False"
| "less_eq_scalar (Timestamp i) (Str t) = False"
| "less_eq_scalar (Timestamp i) (Timestamp j) = (i \<le> j)"

definition less_scalar :: "scalar \<Rightarrow> scalar \<Rightarrow> bool" where
  "less_scalar x y = (x \<le> y \<and> \<not> y \<le> x)"

instance
proof
  fix x y z :: scalar
  show "(x < y) = (x \<le> y \<and> \<not> y \<le> x)" by (simp add: less_scalar_def)
  show "x \<le> x" by (cases x) simp_all
  show "x \<le> y \<Longrightarrow> y \<le> z \<Longrightarrow> x \<le> z"
    by (cases x; cases y; cases z) auto
  show "x \<le> y \<Longrightarrow> y \<le> x \<Longrightarrow> x = y"
    by (cases x; cases y) auto
  show "x \<le> y \<or> y \<le> x"
    by (cases x; cases y) auto
qed

end

text \<open>
  Modelled from the spec: \<^verbatim>\<open>seasonal_decompose\<close> of statsmodels, which is not part of
  the repository. The specification says that a decomposition needs two full periods
  of observations and fails otherwise, and that the four sequences of a result share
  the index of the partition. The values of the seasonal, trend and residual sequences
  are floating-point results of the library and are not modelled: they are left
  missing here.
\<close>

definition seasonal_decompose :: "('l, 'a) decomposer" where
  "seasonal_decompose x p =
     (if int (length (items x)) < 2 * p then Inl ValueError
      else let blank = x\<lparr>items := map (\<lambda>(l, v). (l, None)) (items x)\<rparr>
           in Inr \<lparr>observed = x, seasonal = blank, trend = blank, resid = blank\<rparr>)"

text \<open>
  A row of a table with the columns \<^verbatim>\<open>UF\<close> and \<^verbatim>\<open>X\<close>: its label, its two cells. The
  tables below have the index that \<^verbatim>\<open>load_data\<close> makes, named \<^verbatim>\<open>ANO_MES\<close>.
\<close>

definition table_row ::
  "scalar option \<Rightarrow> scalar option \<Rightarrow> scalar option \<Rightarrow>
   scalar option \<times> (string \<Rightarrow> scalar option)" where
  "table_row l uf x = (l, (\<lambda>c. if c = ''UF'' then uf else if c = ''X'' then x else None))"

text \<open>
  Scenario 6 of the specification: group A with 36 monthly rows, group B with 10.
\<close>

definition months_A :: "(scalar option \<times> (string \<Rightarrow> scalar option)) list" where
  "months_A =
     map (\<lambda>i. table_row (Some (Timestamp i)) (Some (Str ''A'')) (Some (Num (100 + i)))) [1..36]"

definition months_B :: "(scalar option \<times> (string \<Rightarrow> scalar option)) list" where
  "months_B =
     map (\<lambda>i. table_row (Some (Timestamp i)) (Some (Str ''B'')) (Some (Num (200 + i)))) [1..10]"

definition two_groups :: "(scalar option, scalar) data_frame" where
  "two_groups = \<lparr>index_type = DatetimeIndex, index_name = Some ''ANO_MES'',
     columns = [''UF'', ''X''], rows = months_A @ months_B\<rparr>"

text \<open>Scenario 7: group A with the value of month 7 missing.\<close>

definition one_gap :: "(scalar option, scalar) data_frame" where
  "one_gap = \<lparr>index_type = DatetimeIndex, index_name = Some ''ANO_MES'',
     columns = [''UF'', ''X''],
     rows = map (\<lambda>i. table_row (Some (Timestamp i)) (Some (Str ''A''))
                  (if i = 7 then None else Some (Num (100 + i)))) [1..36]\<rparr>"

text \<open>Group B comes first in the rows, group A second; two rows each.\<close>

definition b_before_a :: "(scalar option, scalar) data_frame" where
  "b_before_a = \<lparr>index_type = DatetimeIndex, index_name = Some ''ANO_MES'',
     columns = [''UF'', ''X''],
     rows = [table_row (Some (Timestamp 1)) (Some (Str ''B'')) (Some (Num 5)),
             table_row (Some (Timestamp 2)) (Some (Str ''B'')) (Some (Num 6)),
             table_row (Some (Timestamp 1)) (Some (Str ''A'')) (Some (Num 7)),
             table_row (Some (Timestamp 2)) (Some (Str ''A'')) (Some (Num 8))]\<rparr>"

text \<open>A table without the column \<^verbatim>\<open>X\<close>, the group key missing in both rows.\<close>

definition no_value_column :: "(scalar option, scalar) data_frame" where
  "no_value_column = \<lparr>index_type = DatetimeIndex, index_name = Some ''ANO_MES'',
     columns = [''UF''],
     rows = [table_row (Some (Timestamp 1)) None None,
             table_row (Some (Timestamp 2)) None None]\<rparr>"

text \<open>A table with both columns and no row.\<close>

definition no_rows :: "(scalar option, scalar) data_frame" where
  "no_rows = \<lparr>index_type = DatetimeIndex, index_name = Some ''ANO_MES'',
     columns = [''UF'', ''X''], rows = []\<rparr>"

text \<open>
  A table indexed by text, as \<^verbatim>\<open>pd.read_csv\<close> gives it when the month column is
  made the index without \<^verbatim>\<open>pd.to_datetime\<close>.
\<close>

definition text_index :: "(scalar option, scalar) data_frame" where
  "text_index = \<lparr>index_type = ObjectIndex, index_name = Some ''ANO_MES'',
     columns = [''UF'', ''X''],
     rows = [table_row (Some (Str ''2020-01'')) (Some (Str ''A'')) (Some (Num 5)),
             table_row (Some (Str ''2020-02'')) (Some (Str ''A'')) (Some (Num 6))]\<rparr>"

text \<open>
  A conversion of labels for \<^verbatim>\<open>pd.to_datetime(..., errors="coerce")\<close>: the two months
  of \<open>text_index\<close> become timestamps, any other text NaT (\<open>None\<close>).
\<close>

fun month_to_datetime :: "scalar option \<Rightarrow> scalar option" where
  "month_to_datetime (Some (Str s)) =
     (if s = ''2020-01'' then Some (Timestamp 1)
      else if s = ''2020-02'' then Some (Timestamp 2) else None)"
| "month_to_datetime l = l"

text \<open>A chart: the four traces in the order of lines 69 to 103.\<close>

definition four_traces ::
  "('l, 'a) decompose_result \<Rightarrow> exn + ('l, 'a) series list" where
  "four_traces d = Inr [observed d, trend d, seasonal d, resid d]"

text \<open>What \<open>seasonal_decompose\<close> returns for the one group of \<open>text_index\<close>.\<close>

definition text_index_result :: "(scalar option, scalar) decompose_result" where
  "text_index_result =
     \<lparr>observed = \<lparr>series_index_type = ObjectIndex,
                   items = [(Some (Str ''2020-01''), Some (Num 5)),
                            (Some (Str ''2020-02''), Some (Num 6))]\<rparr>,
      seasonal = \<lparr>series_index_type = ObjectIndex,
                   items = [(Some (Str ''2020-01''), None), (Some (Str ''2020-02''), None)]\<rparr>,
      trend = \<lparr>series_index_type = ObjectIndex,
                   items = [(Some (Str ''2020-01''), None), (Some (Str ''2020-02''), None)]\<rparr>,
      resid = \<lparr>series_index_type = ObjectIndex,
                   items = [(Some (Str ''2020-01''), None), (Some (Str ''2020-02''), None)]\<rparr>\<rparr>"

text \<open>A decomposition that rejects every call with a ValueError.\<close>

definition rejecting_decompose :: "('l, 'a) decomposer" where
  "rejecting_decompose x p = Inl ValueError"

section \<open>The loop and its store\<close>

lemma store_all_Cons: "store_all ((k, d) # xs) m = store_all xs (m(k \<mapsto> d))"
  by (simp add: store_all_def)

lemma store_all_Nil: "store_all [] m = m"
  by (simp add: store_all_def)

lemma getitem_dropna_projection:
  "getitem (dropna (data\<lparr>columns := [v]\<rparr>)) v = Inr (observed_series data v)"
  by (simp add: getitem_def dropna_def observed_series_def)

lemma decompose_loop_missing_column:
  "value_col s \<notin> set (columns data) \<Longrightarrow>
   decompose_loop sd ((k, data) # rest) (h, s) = ((h @ [data], s), Some KeyError)"
  by (simp add: alloc_def getitem_list_def)

lemma decompose_loop_step:
  assumes "value_col s \<in> set (columns data)"
  shows "decompose_loop sd ((k, data) # rest) (h, s) =
    (let h3 = h @ [data, data\<lparr>columns := [value_col s]\<rparr>,
                   dropna (data\<lparr>columns := [value_col s]\<rparr>)]
     in case sd (observed_series data (value_col s)) (period s) of
          Inl e \<Rightarrow> if e = ValueError then decompose_loop sd rest (h3, s)
                   else ((h3, s), Some e)
        | Inr d \<Rightarrow> decompose_loop sd rest
            (h3, s\<lparr>results := (results s)(k \<mapsto> d),
                   successful_groups := successful_groups s @ [k]\<rparr>))"
proof -
  have upd: "(h @ [data, data\<lparr>columns := [value_col s]\<rparr>, data\<lparr>columns := [value_col s]\<rparr>])
        [Suc (Suc (length h)) := dropna (data\<lparr>columns := [value_col s]\<rparr>)]
      = h @ [data, data\<lparr>columns := [value_col s]\<rparr>, dropna (data\<lparr>columns := [value_col s]\<rparr>)]"
    by (simp add: list_update_append)
  show ?thesis
    using assms
    by (simp add: alloc_def getitem_list_def copy_frame_def nth_append upd
        getitem_dropna_projection Let_def split: sum.split)
qed

declare decompose_loop.simps(2) [simp del]

lemma decompose_loop_attempts:
  "decompose_loop sd grouped (h, s) = ((h', s'), e) \<Longrightarrow>
   attempts sd (period s) (value_col s) grouped = (xs, e') \<Longrightarrow>
   e = e' \<and>
   s' = s\<lparr>results := store_all xs (results s),
          successful_groups := successful_groups s @ map fst xs\<rparr> \<and>
   take (length h) h' = h"
proof (induction grouped arbitrary: h s xs e')
  case Nil
  then show ?case by (simp add: store_all_Nil)
next
  case (Cons kd rest)
  obtain k data where kd: "kd = (k, data)" by (cases kd)
  show ?case
  proof (cases "value_col s \<in> set (columns data)")
    case False
    with Cons.prems kd show ?thesis
      by (auto simp: decompose_loop_missing_column store_all_Nil)
  next
    case True
    define h3 where "h3 = h @ [data, data\<lparr>columns := [value_col s]\<rparr>,
                   dropna (data\<lparr>columns := [value_col s]\<rparr>)]"
    have pre: "take (length h) h3 = h" by (simp add: h3_def)
    have len: "length h \<le> length h3" by (simp add: h3_def)
    note step = decompose_loop_step [OF True, of sd k rest h, folded h3_def, unfolded Let_def]
    show ?thesis
    proof (cases "sd (observed_series data (value_col s)) (period s)")
      case (Inl err)
      show ?thesis
      proof (cases "err = ValueError")
        case True
        from Cons.prems kd Inl True \<open>value_col s \<in> set (columns data)\<close>
        have a: "decompose_loop sd rest (h3, s) = ((h', s'), e)"
          and b: "attempts sd (period s) (value_col s) rest = (xs, e')"
          by (simp_all add: step)
        from Cons.IH [OF a b] have "e = e'" and "s' = s\<lparr>results := store_all xs (results s),
          successful_groups := successful_groups s @ map fst xs\<rparr>" and t: "take (length h3) h' = h3"
          by simp_all
        moreover have "take (length h) h' = h"
          using t pre len by (metis min.absorb1 take_take)
        ultimately show ?thesis by simp
      next
        case False
        with Cons.prems kd Inl \<open>value_col s \<in> set (columns data)\<close> pre show ?thesis
          by (auto simp: step store_all_Nil)
      qed
    next
      case (Inr d)
      obtain ys where ys: "attempts sd (period s) (value_col s) rest = (ys, e')"
        and xs: "xs = (k, d) # ys"
        using Cons.prems(2) kd Inr True by (auto split: prod.splits)
      let ?s1 = "s\<lparr>results := (results s)(k \<mapsto> d),
                   successful_groups := successful_groups s @ [k]\<rparr>"
      from Cons.prems(1) kd Inr
      have a: "decompose_loop sd rest (h3, ?s1) = ((h', s'), e)"
        by (simp add: step)
      have b: "attempts sd (period ?s1) (value_col ?s1) rest = (ys, e')"
        using ys by simp
      from Cons.IH [OF a b] have "e = e'" and "s' = s\<lparr>results := store_all ys ((results s)(k \<mapsto> d)),
          successful_groups := successful_groups s @ k # map fst ys\<rparr>" and t: "take (length h3) h' = h3"
        by (simp_all add: fun_upd_def)
      moreover have "take (length h) h' = h"
        using t pre len by (metis min.absorb1 take_take)
      ultimately show ?thesis by (simp add: xs store_all_Cons)
    qed
  qed
qed

lemma store_after_simp [simp]: "store_after ((h, s), e) = h"
  by (simp add: store_after_def)

lemma state_after_simp [simp]: "state_after ((h, s), e) = s"
  by (simp add: state_after_def)

lemma raised_simp [simp]: "raised ((h, s), e) = e"
  by (simp add: raised_def)

lemma decompose_series_known:
  assumes "groupby_col s \<in> set (columns (h ! df s)) \<or>
           index_name (h ! df s) = Some (groupby_col s)"
  shows "state_after (decompose_series sd h s) =
           s\<lparr>results := store_all (fst (attempts sd (period s) (value_col s)
                         (grouped_frames (h ! df s) (groupby_col s)))) (results s),
             successful_groups := successful_groups s @
                map fst (fst (attempts sd (period s) (value_col s)
                         (grouped_frames (h ! df s) (groupby_col s))))\<rparr>"
    and "raised (decompose_series sd h s) =
           snd (attempts sd (period s) (value_col s) (grouped_frames (h ! df s) (groupby_col s)))"
    and "take (length h) (store_after (decompose_series sd h s)) = h"
proof -
  let ?grouped = "grouped_frames (h ! df s) (groupby_col s)"
  obtain h' s' e where r: "decompose_loop sd ?grouped (h, s) = ((h', s'), e)"
    by (metis surj_pair)
  obtain xs e' where a: "attempts sd (period s) (value_col s) ?grouped = (xs, e')"
    by (metis surj_pair)
  have d: "decompose_series sd h s = ((h', s'), e)"
    using assms r by (simp add: decompose_series_def groupby_def grouped_frames_def)
  from decompose_loop_attempts [OF r a] d a
  show "state_after (decompose_series sd h s) =
           s\<lparr>results := store_all (fst (attempts sd (period s) (value_col s)
                         (grouped_frames (h ! df s) (groupby_col s)))) (results s),
             successful_groups := successful_groups s @
                map fst (fst (attempts sd (period s) (value_col s)
                         (grouped_frames (h ! df s) (groupby_col s))))\<rparr>"
    and "raised (decompose_series sd h s) =
           snd (attempts sd (period s) (value_col s) (grouped_frames (h ! df s) (groupby_col s)))"
    and "take (length h) (store_after (decompose_series sd h s)) = h"
    by simp_all
qed

lemma decompose_series_unknown:
  assumes "groupby_col s \<notin> set (columns (h ! df s))"
    and "index_name (h ! df s) \<noteq> Some (groupby_col s)"
  shows "decompose_series sd h s = ((h, s), Some KeyError)"
  using assms by (simp add: decompose_series_def groupby_def)

lemma attempts_subseq: "subseq (map fst (fst (attempts sd p v grouped))) (map fst grouped)"
proof (induction grouped)
  case Nil
  show ?case by simp
next
  case (Cons kd rest)
  obtain k data where kd: "kd = (k, data)" by (cases kd)
  show ?case using Cons.IH
    by (auto simp: kd split: sum.splits prod.splits)
qed

lemma dom_store_all: "dom (store_all xs m) = dom m \<union> fst ` set xs"
proof (induction xs arbitrary: m)
  case Nil
  show ?case by (simp add: store_all_Nil)
next
  case (Cons x xs)
  obtain a d where x: "x = (a, d)" by (cases x)
  have "dom (store_all (x # xs) m) = dom (m(a \<mapsto> d)) \<union> fst ` set xs"
    by (simp only: x store_all_Cons Cons.IH)
  then show ?case by (auto simp: x)
qed


lemma store_all_map_of:
  "distinct (map fst xs) \<Longrightarrow>
   store_all xs m k = (case map_of xs k of None \<Rightarrow> m k | Some d \<Rightarrow> Some d)"
proof (induction xs arbitrary: m)
  case Nil
  show ?case by (simp add: store_all_Nil)
next
  case (Cons x xs)
  obtain a d where x: "x = (a, d)" by (cases x)
  from Cons.prems x have nin: "a \<notin> fst ` set xs" and dist: "distinct (map fst xs)" by auto
  show ?case
  proof (cases "k = a")
    case True
    then have "map_of xs k = None" using nin by (simp add: map_of_eq_None_iff)
    then show ?thesis using True x Cons.IH [OF dist, of "m(a \<mapsto> d)"]
      by (simp add: store_all_Cons fun_upd_def)
  next
    case False
    then show ?thesis using x Cons.IH [OF dist, of "m(a \<mapsto> d)"]
      by (simp add: store_all_Cons fun_upd_def split: option.splits)
  qed
qed

text \<open>When only ValueError is raised and the column is there: all groups are attempted.\<close>

lemma attempts_all:
  assumes "only_ValueError sd p" and "\<forall>(k, data) \<in> set grouped. v \<in> set (columns data)"
  shows "attempts sd p v grouped =
           (List.map_filter (\<lambda>(k, data). case sd (observed_series data v) p of
                                Inl e \<Rightarrow> None | Inr d \<Rightarrow> Some (k, d)) grouped, None)"
  using assms(2)
proof (induction grouped)
  case Nil
  show ?case by (simp add: List.map_filter_simps)
next
  case (Cons kd rest)
  obtain k data where kd: "kd = (k, data)" by (cases kd)
  from Cons.prems kd have v: "v \<in> set (columns data)" by simp
  from Cons have IH: "attempts sd p v rest =
           (List.map_filter (\<lambda>(k, data). case sd (observed_series data v) p of
                                Inl e \<Rightarrow> None | Inr d \<Rightarrow> Some (k, d)) rest, None)" by simp
  show ?case
  proof (cases "sd (observed_series data v) p")
    case (Inl e)
    then have "e = ValueError" using assms(1) by (simp add: only_ValueError_def)
    then show ?thesis using Inl v IH by (simp add: kd List.map_filter_simps)
  next
    case (Inr d)
    then show ?thesis using v IH by (simp add: kd List.map_filter_simps)
  qed
qed


section \<open>Groups, keys and stored results\<close>

lemma group_keys_distinct: "distinct (group_keys f g)"
  by (simp add: group_keys_def)

lemma group_keys_set: "set (group_keys f g) = distinct_groups f g"
  by (simp add: group_keys_def distinct_groups_def)

lemma group_keys_sorted_list: "group_keys f g = sorted_list_of_set (distinct_groups f g)"
  by (simp add: group_keys_def distinct_groups_def sorted_list_of_set_sort_remdups)

lemma grouped_frames_keys: "map fst (grouped_frames f g) = group_keys f g"
  by (simp add: grouped_frames_def comp_def)

lemma grouped_frames_columns:
  "\<forall>(k, data) \<in> set (grouped_frames f g). v \<in> set (columns data) \<longleftrightarrow> v \<in> set (columns f)"
  by (auto simp: grouped_frames_def get_group_def)

lemma observed_series_get_group:
  "observed_series (get_group f g k) v = partition_series f g v k"
  by (simp add: observed_series_def get_group_def partition_series_def case_prod_unfold conj_commute)

lemma partition_series_length:
  "length (items (partition_series f g v k)) = non_missing_observations f g v k"
  by (simp add: partition_series_def non_missing_observations_def)

lemma fresh_fields [simp]:
  "df (TimeSeriesAnalysis a g v p) = a"
  "groupby_col (TimeSeriesAnalysis a g v p) = g"
  "value_col (TimeSeriesAnalysis a g v p) = v"
  "period (TimeSeriesAnalysis a g v p) = p"
  "results (TimeSeriesAnalysis a g v p) = Map.empty"
  "successful_groups (TimeSeriesAnalysis a g v p) = []"
  by (simp_all add: TimeSeriesAnalysis_def)

text \<open>The pairs stored for the keys \<open>ks\<close> when every group is attempted.\<close>

lemma stored_pairs:
  "List.map_filter (\<lambda>(k, data). case sd (observed_series data v) p of
       Inl e \<Rightarrow> None | Inr d \<Rightarrow> Some (k, d)) (map (\<lambda>k. (k, get_group f g k)) ks)
   = List.map_filter (\<lambda>k. case sd (partition_series f g v k) p of
       Inl e \<Rightarrow> None | Inr d \<Rightarrow> Some (k, d)) ks"
  by (simp add: List.map_filter_def filter_map comp_def observed_series_get_group)

lemma stored_pairs_keys:
  "map fst (List.map_filter (\<lambda>k. case G k of Inl e \<Rightarrow> None | Inr d \<Rightarrow> Some (k, d)) ks)
   = filter (\<lambda>k. \<not> isl (G k)) ks"
  by (induction ks) (auto simp: List.map_filter_simps split: sum.splits)

lemma stored_pairs_map_of:
  "map_of (List.map_filter (\<lambda>k. case G k of Inl e \<Rightarrow> None | Inr d \<Rightarrow> Some (k, d)) ks) k
   = (if k \<in> set ks then (case G k of Inl e \<Rightarrow> None | Inr d \<Rightarrow> Some d) else None)"
  by (induction ks) (auto simp: List.map_filter_simps split: sum.splits)

lemma decompose_series_attempted:
  assumes g: "g \<in> set (columns (h ! a))" and v: "v \<in> set (columns (h ! a))"
    and sd: "only_ValueError sd p"
  shows "raised (decompose_series sd h (TimeSeriesAnalysis a g v p)) = None"
    and "successful_groups (state_after (decompose_series sd h (TimeSeriesAnalysis a g v p))) =
           filter (\<lambda>k. \<not> isl (sd (partition_series (h ! a) g v k) p)) (group_keys (h ! a) g)"
    and "results (state_after (decompose_series sd h (TimeSeriesAnalysis a g v p))) k =
           (if k \<in> distinct_groups (h ! a) g
            then (case sd (partition_series (h ! a) g v k) p of Inl e \<Rightarrow> None | Inr d \<Rightarrow> Some d)
            else None)"
proof -
  let ?f = "h ! a"
  let ?xs = "List.map_filter (\<lambda>k. case sd (partition_series ?f g v k) p of
       Inl e \<Rightarrow> None | Inr d \<Rightarrow> Some (k, d)) (group_keys ?f g)"
  have cols: "\<forall>(k, data) \<in> set (grouped_frames ?f g). v \<in> set (columns data)"
    using grouped_frames_columns [of ?f g v] v by auto
  have att: "attempts sd p v (grouped_frames ?f g) = (?xs, None)"
    using attempts_all [OF sd cols]
    by (simp add: grouped_frames_def stored_pairs)
  have keys: "map fst ?xs = filter (\<lambda>k. \<not> isl (sd (partition_series ?f g v k) p)) (group_keys ?f g)"
    by (rule stored_pairs_keys)
  have dist: "distinct (map fst ?xs)"
    by (simp only: keys) (simp add: group_keys_distinct)
  show "raised (decompose_series sd h (TimeSeriesAnalysis a g v p)) = None"
    using g by (simp add: decompose_series_known att)
  show "successful_groups (state_after (decompose_series sd h (TimeSeriesAnalysis a g v p))) =
           filter (\<lambda>k. \<not> isl (sd (partition_series ?f g v k) p)) (group_keys ?f g)"
    using g keys by (simp add: decompose_series_known att)
  have "results (state_after (decompose_series sd h (TimeSeriesAnalysis a g v p))) k =
          store_all ?xs Map.empty k"
    using g by (simp add: decompose_series_known att)
  also have "\<dots> = (case map_of ?xs k of None \<Rightarrow> None | Some d \<Rightarrow> Some d)"
    by (simp only: store_all_map_of [OF dist])
  also have "\<dots> = (if k \<in> distinct_groups ?f g
            then (case sd (partition_series ?f g v k) p of Inl e \<Rightarrow> None | Inr d \<Rightarrow> Some d)
            else None)"
    by (simp only: stored_pairs_map_of group_keys_set) (simp split: sum.splits)
  finally show "results (state_after (decompose_series sd h (TimeSeriesAnalysis a g v p))) k =
           (if k \<in> distinct_groups ?f g
            then (case sd (partition_series ?f g v k) p of Inl e \<Rightarrow> None | Inr d \<Rightarrow> Some d)
            else None)" .
qed

lemma successful_groups_subseq:
  "subseq (successful_groups (state_after (decompose_series sd h (TimeSeriesAnalysis a g v p))))
     (group_keys (h ! a) g)"
proof (cases "g \<in> set (columns (h ! a)) \<or> index_name (h ! a) = Some g")
  case True
  then show ?thesis
    using attempts_subseq [of sd p v "grouped_frames (h ! a) g"]
    by (simp add: decompose_series_known grouped_frames_keys)
next
  case False
  then show ?thesis by (simp add: decompose_series_unknown)
qed

lemma successful_groups_distinct:
  "distinct (successful_groups (state_after (decompose_series sd h (TimeSeriesAnalysis a g v p))))"
  using successful_groups_subseq [of sd h a g v p] group_keys_distinct [of "h ! a" g]
  by (simp add: subseqs_distinctD set_subseqs_eq)

lemma store_kept:
  assumes "a < length h"
  shows "store_after (decompose_series sd h s) ! a = h ! a"
proof (cases "groupby_col s \<in> set (columns (h ! df s)) \<or>
      index_name (h ! df s) = Some (groupby_col s)")
  case True
  have "take (length h) (store_after (decompose_series sd h s)) ! a = h ! a"
    by (simp add: decompose_series_known(3) [OF True])
  then show ?thesis using assms by simp
next
  case False
  then show ?thesis by (simp add: decompose_series_unknown)
qed

text \<open>The object and the exception depend on the table at \<open>df s\<close> only.\<close>

lemma decompose_series_table_only:
  assumes "h ! df s = h' ! df s"
  shows "state_after (decompose_series sd h s) = state_after (decompose_series sd h' s)"
    and "raised (decompose_series sd h s) = raised (decompose_series sd h' s)"
proof -
  show "state_after (decompose_series sd h s) = state_after (decompose_series sd h' s)"
  proof (cases "groupby_col s \<in> set (columns (h ! df s)) \<or>
      index_name (h ! df s) = Some (groupby_col s)")
    case True
    then show ?thesis using assms by (simp add: decompose_series_known)
  next
    case False
    then show ?thesis using assms by (simp add: decompose_series_unknown)
  qed
  show "raised (decompose_series sd h s) = raised (decompose_series sd h' s)"
  proof (cases "groupby_col s \<in> set (columns (h ! df s)) \<or>
      index_name (h ! df s) = Some (groupby_col s)")
    case True
    then show ?thesis using assms by (simp add: decompose_series_known)
  next
    case False
    then show ?thesis using assms by (simp add: decompose_series_unknown)
  qed
qed

lemma consistent_kept:
  assumes "dom (results s) = set (successful_groups s)"
  shows "dom (results (state_after (decompose_series sd h s))) =
         set (successful_groups (state_after (decompose_series sd h s)))"
proof (cases "groupby_col s \<in> set (columns (h ! df s)) \<or>
      index_name (h ! df s) = Some (groupby_col s)")
  case True
  then show ?thesis using assms by (simp add: decompose_series_known dom_store_all)
next
  case False
  then show ?thesis using assms by (simp add: decompose_series_unknown)
qed

lemma two_cycles_only_ValueError: "two_complete_cycles sd p \<Longrightarrow> only_ValueError sd p"
  unfolding two_complete_cycles_def only_ValueError_def
  by (metis Inl_Inr_False sum.inject(1))

lemma two_cycles_success:
  "two_complete_cycles sd p \<Longrightarrow> \<not> isl (sd x p) \<longleftrightarrow> 2 * p \<le> int (length (items x))"
  unfolding two_complete_cycles_def
  by (metis isl_def linorder_not_less sum.disc(2))

lemma seasonal_decompose_two_cycles: "two_complete_cycles seasonal_decompose p"
  by (simp add: two_complete_cycles_def seasonal_decompose_def Let_def)

lemma seasonal_decompose_only_ValueError: "only_ValueError seasonal_decompose p"
  by (simp add: only_ValueError_def seasonal_decompose_def Let_def)

lemma card_split_filter:
  assumes "finite S"
  shows "card {k \<in> S. P k} = card S - card {k \<in> S. \<not> P k}"
proof -
  have "{k \<in> S. P k} = S - {k \<in> S. \<not> P k}" by auto
  then show ?thesis using assms by (simp add: card_Diff_subset)
qed

section \<open>Completeness under failure isolation\<close>

text \<open>
  Claim C1. Let the table have both columns, let the period be positive, and let the
  decomposition follow the two-cycle rule. Then the run is not aborted; the succeeded
  list has exactly N - K entries, N the number of distinct groups and K the number of
  those with fewer than \<open>2 * period\<close> non-missing observations in the value column; and
  its keys are exactly the groups with at least \<open>2 * period\<close> such observations.
\<close>

theorem decompose_series_completeness:
  assumes "g \<in> set (columns (h ! a))" and "v \<in> set (columns (h ! a))"
    and "0 < p" and "two_complete_cycles sd p"
  shows "raised (decompose_series sd h (TimeSeriesAnalysis a g v p)) = None \<and>
    length (successful_groups (state_after (decompose_series sd h (TimeSeriesAnalysis a g v p)))) =
      card (distinct_groups (h ! a) g) -
      card {k \<in> distinct_groups (h ! a) g. int (non_missing_observations (h ! a) g v k) < 2 * p} \<and>
    set (successful_groups (state_after (decompose_series sd h (TimeSeriesAnalysis a g v p)))) =
      {k \<in> distinct_groups (h ! a) g. 2 * p \<le> int (non_missing_observations (h ! a) g v k)}"
proof -
  let ?f = "h ! a"
  let ?ok = "\<lambda>k. 2 * p \<le> int (non_missing_observations ?f g v k)"
  note only = two_cycles_only_ValueError [OF assms(4)]
  have succ: "successful_groups (state_after (decompose_series sd h (TimeSeriesAnalysis a g v p))) =
          filter ?ok (group_keys ?f g)"
    by (simp add: decompose_series_attempted(2) [OF assms(1,2) only]
        two_cycles_success [OF assms(4)] partition_series_length)
  have "length (filter ?ok (group_keys ?f g)) = card {k \<in> distinct_groups ?f g. ?ok k}"
    using distinct_card [of "filter ?ok (group_keys ?f g)"]
    by (simp add: group_keys_distinct group_keys_set [symmetric])
  also have "\<dots> = card (distinct_groups ?f g) - card {k \<in> distinct_groups ?f g. \<not> ?ok k}"
    by (rule card_split_filter) (simp add: distinct_groups_def)
  finally have len: "length (filter ?ok (group_keys ?f g)) =
      card (distinct_groups ?f g) -
      card {k \<in> distinct_groups ?f g. int (non_missing_observations ?f g v k) < 2 * p}"
    by (simp add: linorder_not_le)
  show ?thesis
    using decompose_series_attempted(1) [OF assms(1,2) only] len
    by (simp add: succ group_keys_set)
qed

lemma two_groups_evaluated:
  "successful_groups (state_after (decompose_series seasonal_decompose [two_groups]
      (TimeSeriesAnalysis 0 ''UF'' ''X'' 12))) = [Str ''A'']"
  by code_simp

theorem decompose_series_completeness_witness:
  "raised (decompose_series seasonal_decompose [two_groups] (TimeSeriesAnalysis 0 ''UF'' ''X'' 12)) = None \<and>
   length (successful_groups (state_after (decompose_series seasonal_decompose [two_groups]
      (TimeSeriesAnalysis 0 ''UF'' ''X'' 12)))) =
      card (distinct_groups two_groups ''UF'') -
      card {k \<in> distinct_groups two_groups ''UF''.
              int (non_missing_observations two_groups ''UF'' ''X'' k) < 2 * 12} \<and>
   set (successful_groups (state_after (decompose_series seasonal_decompose [two_groups]
      (TimeSeriesAnalysis 0 ''UF'' ''X'' 12)))) =
      {k \<in> distinct_groups two_groups ''UF''.
         2 * 12 \<le> int (non_missing_observations two_groups ''UF'' ''X'' k)} \<and>
   successful_groups (state_after (decompose_series seasonal_decompose [two_groups]
      (TimeSeriesAnalysis 0 ''UF'' ''X'' 12))) = [Str ''A'']"
  using decompose_series_completeness [of "''UF''" "[two_groups]" 0 "''X''" 12 seasonal_decompose]
    seasonal_decompose_two_cycles [of 12] two_groups_evaluated
  by (simp add: two_groups_def)

section \<open>Order of the succeeded list\<close>

text \<open>
  Claim C2, as stated, fails: in the table \<open>b_before_a\<close> group B appears first, both
  groups succeed with period 1, and the succeeded list is A, B, which is no subsequence
  of the order of first appearance B, A.
\<close>

theorem succeeded_order_counterexample:
  "successful_groups (state_after (decompose_series seasonal_decompose [b_before_a]
      (TimeSeriesAnalysis 0 ''UF'' ''X'' 1))) = [Str ''A'', Str ''B''] \<and>
   first_appearance_order b_before_a ''UF'' = [Str ''B'', Str ''A''] \<and>
   \<not> subseq
      (successful_groups (state_after (decompose_series seasonal_decompose [b_before_a]
         (TimeSeriesAnalysis 0 ''UF'' ''X'' 1))))
      (first_appearance_order b_before_a ''UF'')"
  by code_simp

text \<open>
  Claim C2, amended. For every table, the succeeded list is a subsequence of the
  distinct non-missing values of the grouping column in ascending order, the order in
  which \<^verbatim>\<open>groupby\<close> iterates.
\<close>

theorem succeeded_order_sorted:
  "subseq (successful_groups (state_after (decompose_series sd h (TimeSeriesAnalysis a g v p))))
     (sorted_list_of_set (distinct_groups (h ! a) g))"
  using successful_groups_subseq [of sd h a g v p]
  by (simp add: group_keys_sorted_list)

theorem succeeded_order_sorted_witness:
  "subseq (successful_groups (state_after (decompose_series seasonal_decompose [b_before_a]
      (TimeSeriesAnalysis 0 ''UF'' ''X'' 1))))
     (sorted_list_of_set (distinct_groups b_before_a ''UF'')) \<and>
   sorted_list_of_set (distinct_groups b_before_a ''UF'') = [Str ''A'', Str ''B'']"
proof -
  have "sorted_list_of_set (distinct_groups b_before_a ''UF'') = [Str ''A'', Str ''B'']"
    unfolding group_keys_sorted_list [symmetric] by code_simp
  then show ?thesis
    using succeeded_order_sorted [of seasonal_decompose "[b_before_a]" 0 "''UF''" "''X''" 1]
    by simp
qed

section \<open>Repeated invocation\<close>

text \<open>
  Claim C3, as stated, fails: the dict and the list are made by \<^verbatim>\<open>__init__\<close>, not by
  \<^verbatim>\<open>decompose_series\<close>. Invoked a second time on the same object, the method appends
  to the list of the first invocation: A, B becomes A, B, A, B.
\<close>

theorem repeated_method_counterexample:
  "successful_groups (state_after (decompose_series seasonal_decompose [b_before_a]
      (TimeSeriesAnalysis 0 ''UF'' ''X'' 1))) = [Str ''A'', Str ''B''] \<and>
   successful_groups (state_after (decompose_series seasonal_decompose
      (store_after (decompose_series seasonal_decompose [b_before_a]
         (TimeSeriesAnalysis 0 ''UF'' ''X'' 1)))
      (state_after (decompose_series seasonal_decompose [b_before_a]
         (TimeSeriesAnalysis 0 ''UF'' ''X'' 1))))) = [Str ''A'', Str ''B'', Str ''A'', Str ''B'']"
  by code_simp

text \<open>
  Claim C3, amended. A newly constructed object holds no result and no succeeded key.
  Constructing an object and invoking \<^verbatim>\<open>decompose_series\<close> on it once, done twice with
  the same table and arguments (the second time in the store the first left), gives
  the same object both times: the same succeeded list, the same result for every group,
  the same exception if one is raised.
\<close>

theorem fresh_object_idempotent:
  assumes "a < length h"
  shows "(let s0 = TimeSeriesAnalysis a g v p;
              once = decompose_series sd h s0;
              again = decompose_series sd (store_after once) s0
          in results s0 = Map.empty \<and> successful_groups s0 = [] \<and>
             state_after again = state_after once \<and> raised again = raised once)"
proof -
  let ?s = "TimeSeriesAnalysis a g v p"
  have same: "store_after (decompose_series sd h ?s) ! df ?s = h ! df ?s"
    using assms by (simp add: store_kept)
  show ?thesis
    using decompose_series_table_only [OF same, of sd] by (simp add: Let_def)
qed

theorem fresh_object_idempotent_witness:
  "state_after (decompose_series seasonal_decompose
      (store_after (decompose_series seasonal_decompose [b_before_a]
         (TimeSeriesAnalysis 0 ''UF'' ''X'' 1)))
      (TimeSeriesAnalysis 0 ''UF'' ''X'' 1)) =
   state_after (decompose_series seasonal_decompose [b_before_a]
      (TimeSeriesAnalysis 0 ''UF'' ''X'' 1)) \<and>
   successful_groups (state_after (decompose_series seasonal_decompose
      (store_after (decompose_series seasonal_decompose [b_before_a]
         (TimeSeriesAnalysis 0 ''UF'' ''X'' 1)))
      (TimeSeriesAnalysis 0 ''UF'' ''X'' 1))) = [Str ''A'', Str ''B'']"
proof -
  have "successful_groups (state_after (decompose_series seasonal_decompose [b_before_a]
      (TimeSeriesAnalysis 0 ''UF'' ''X'' 1))) = [Str ''A'', Str ''B'']"
    by code_simp
  then show ?thesis
    using fresh_object_idempotent [of 0 "[b_before_a]" "''UF''" "''X''" 1 seasonal_decompose]
    by (simp add: Let_def)
qed

section \<open>Missing columns\<close>

text \<open>
  Claim C4, as stated, fails: the table \<open>no_value_column\<close> has no column \<^verbatim>\<open>X\<close> and no
  group (the key is missing in every row), so the loop body never runs and the method
  returns normally with the empty state.
\<close>

theorem missing_value_column_counterexample:
  "''X'' \<notin> set (columns no_value_column) \<and>
   decompose_series seasonal_decompose [no_value_column] (TimeSeriesAnalysis 0 ''UF'' ''X'' 12) =
     (([no_value_column], TimeSeriesAnalysis 0 ''UF'' ''X'' 12), None)"
  by (simp add: decompose_series_def groupby_def grouped_frames_def group_keys_def group_key_def
      no_value_column_def table_row_def TimeSeriesAnalysis_def)

text \<open>
  A grouping label that is no column but the name of the index is not a missing
  column: the method groups on the index. In \<open>b_before_a\<close>, grouped on \<^verbatim>\<open>ANO_MES\<close> with
  period 1, each of the two months has two rows and both months succeed.
\<close>

lemma index_name_grouping_evaluated:
  "''ANO_MES'' \<notin> set (columns b_before_a) \<and>
   raised (decompose_series seasonal_decompose [b_before_a]
      (TimeSeriesAnalysis 0 ''ANO_MES'' ''X'' 1)) = None \<and>
   successful_groups (state_after (decompose_series seasonal_decompose [b_before_a]
      (TimeSeriesAnalysis 0 ''ANO_MES'' ''X'' 1))) = [Timestamp 1, Timestamp 2]"
  by code_simp

lemma grouped_frames_first:
  assumes "distinct_groups f g \<noteq> {}"
  shows "\<exists>k rest. grouped_frames f g = (k, get_group f g k) # rest"
proof -
  from assms have "group_keys f g \<noteq> []"
    by (simp add: group_keys_set [symmetric])
  then obtain k ks where "group_keys f g = k # ks" by (cases "group_keys f g") auto
  then show ?thesis by (simp add: grouped_frames_def)
qed

text \<open>
  Claim C4, amended. When the grouping label is neither a column of the table nor the
  name of its index, or when the value label is no column and the table has at least
  one group, \<^verbatim>\<open>decompose_series\<close> raises KeyError, whatever the decomposition would
  do: no partition is decomposed, and the object is as it was (for a new object: no
  result, no succeeded key).
\<close>

theorem missing_column_KeyError:
  assumes "groupby_col s \<notin> set (columns (h ! df s)) \<and>
           index_name (h ! df s) \<noteq> Some (groupby_col s) \<or>
           value_col s \<notin> set (columns (h ! df s)) \<and>
           distinct_groups (h ! df s) (groupby_col s) \<noteq> {}"
  shows "raised (decompose_series sd h s) = Some KeyError \<and>
         state_after (decompose_series sd h s) = s"
proof (cases "groupby_col s \<in> set (columns (h ! df s)) \<or>
      index_name (h ! df s) = Some (groupby_col s)")
  case False
  then show ?thesis by (simp add: decompose_series_unknown)
next
  case True
  with assms have v: "value_col s \<notin> set (columns (h ! df s))"
    and ne: "distinct_groups (h ! df s) (groupby_col s) \<noteq> {}" by auto
  from grouped_frames_first [OF ne] obtain k rest where
    gf: "grouped_frames (h ! df s) (groupby_col s) = (k, get_group (h ! df s) (groupby_col s) k) # rest"
    by blast
  have "value_col s \<notin> set (columns (get_group (h ! df s) (groupby_col s) k))"
    using v by (simp add: get_group_def)
  then show ?thesis
    using True by (simp add: decompose_series_def groupby_def gf decompose_loop_missing_column)
qed

theorem missing_column_KeyError_witness:
  "raised (decompose_series seasonal_decompose [b_before_a] (TimeSeriesAnalysis 0 ''UF'' ''Y'' 12))
     = Some KeyError \<and>
   state_after (decompose_series seasonal_decompose [b_before_a] (TimeSeriesAnalysis 0 ''UF'' ''Y'' 12))
     = TimeSeriesAnalysis 0 ''UF'' ''Y'' 12 \<and>
   raised (decompose_series seasonal_decompose [b_before_a] (TimeSeriesAnalysis 0 ''W'' ''X'' 12))
     = Some KeyError \<and>
   raised (decompose_series seasonal_decompose [b_before_a]
      (TimeSeriesAnalysis 0 ''ANO_MES'' ''Y'' 12)) = Some KeyError"
proof -
  have "distinct_groups b_before_a ''UF'' \<noteq> {}"
    and "distinct_groups b_before_a ''ANO_MES'' \<noteq> {}"
    by (simp_all add: distinct_groups_def group_key_def b_before_a_def table_row_def)
  then show ?thesis
    using missing_column_KeyError [of "TimeSeriesAnalysis 0 ''UF'' ''Y'' 12" "[b_before_a]" seasonal_decompose]
      missing_column_KeyError [of "TimeSeriesAnalysis 0 ''W'' ''X'' 12" "[b_before_a]" seasonal_decompose]
      missing_column_KeyError [of "TimeSeriesAnalysis 0 ''ANO_MES'' ''Y'' 12" "[b_before_a]" seasonal_decompose]
    by (simp add: b_before_a_def)
qed

section \<open>Non-positive period\<close>

text \<open>
  Claim C5, as stated, fails: nothing in the class looks at the period. With period 0
  and a table without rows the method returns normally with the empty state; with
  period -1 and a decomposition that rejects it with a ValueError, the method drops
  every group and returns normally with an empty succeeded list.
\<close>

theorem non_positive_period_counterexample:
  "decompose_series seasonal_decompose [no_rows] (TimeSeriesAnalysis 0 ''UF'' ''X'' 0) =
     (([no_rows], TimeSeriesAnalysis 0 ''UF'' ''X'' 0), None) \<and>
   raised (decompose_series rejecting_decompose [b_before_a] (TimeSeriesAnalysis 0 ''UF'' ''X'' (- 1)))
     = None \<and>
   successful_groups (state_after
     (decompose_series rejecting_decompose [b_before_a] (TimeSeriesAnalysis 0 ''UF'' ''X'' (- 1))))
     = []"
proof -
  have "decompose_series seasonal_decompose [no_rows] (TimeSeriesAnalysis 0 ''UF'' ''X'' 0) =
     (([no_rows], TimeSeriesAnalysis 0 ''UF'' ''X'' 0), None)"
    by (simp add: decompose_series_def groupby_def grouped_frames_def group_keys_def
        no_rows_def TimeSeriesAnalysis_def)
  moreover have "raised (decompose_series rejecting_decompose [b_before_a]
      (TimeSeriesAnalysis 0 ''UF'' ''X'' (- 1))) = None"
    by code_simp
  moreover have "successful_groups (state_after
     (decompose_series rejecting_decompose [b_before_a] (TimeSeriesAnalysis 0 ''UF'' ''X'' (- 1))))
     = []"
    by code_simp
  ultimately show ?thesis by simp
qed

text \<open>
  Claim C5, amended. \<^verbatim>\<open>decompose_series\<close> does not check the period. For a
  non-positive period and a table with both columns it hands the period to the
  decomposition for every group and, when the decomposition raises nothing but
  ValueError, returns normally; the succeeded list holds the groups for which the
  decomposition returned a result, and is empty when it returned none.
\<close>

theorem period_not_checked:
  assumes "p \<le> 0"
    and "g \<in> set (columns (h ! a))" and "v \<in> set (columns (h ! a))"
    and "only_ValueError sd p"
  shows "raised (decompose_series sd h (TimeSeriesAnalysis a g v p)) = None \<and>
    successful_groups (state_after (decompose_series sd h (TimeSeriesAnalysis a g v p))) =
      filter (\<lambda>k. \<not> isl (sd (partition_series (h ! a) g v k) p)) (group_keys (h ! a) g)"
  using decompose_series_attempted(1,2) [OF assms(2,3,4)] by simp

theorem period_not_checked_witness:
  "raised (decompose_series rejecting_decompose [b_before_a] (TimeSeriesAnalysis 0 ''UF'' ''X'' (- 1))) = None \<and>
   successful_groups (state_after
     (decompose_series rejecting_decompose [b_before_a] (TimeSeriesAnalysis 0 ''UF'' ''X'' (- 1)))) = []"
proof -
  have "only_ValueError (rejecting_decompose :: (scalar option, scalar) decomposer) (- 1)"
    by (simp add: only_ValueError_def rejecting_decompose_def)
  then show ?thesis
    using period_not_checked [of "- 1" "''UF''" "[b_before_a]" 0 "''X''" rejecting_decompose]
    by (simp add: b_before_a_def rejecting_decompose_def)
qed

section \<open>Lookup of a group without a result\<close>

text \<open>
  Claim C6. In every state in which the keys of the result dict are the succeeded keys
  (\<open>consistent_kept\<close>: \<^verbatim>\<open>decompose_series\<close> keeps it so), asking
  \<^verbatim>\<open>plot_decomposition\<close> for a key that is not in the succeeded list shows the warning
  for that key, raises nothing and leaves the object as it is.
\<close>

theorem lookup_miss_is_warning:
  assumes "dom (results s) = set (successful_groups s)" and "k \<notin> set (successful_groups s)"
  shows "plot_decomposition to_dt plotly_chart s k = (s, Inr (Warning k))"
proof -
  from assms have "results s k = None" by auto
  then show ?thesis by (simp add: plot_decomposition_def)
qed

theorem lookup_miss_is_warning_witness:
  "plot_decomposition month_to_datetime four_traces
     (state_after (decompose_series seasonal_decompose [two_groups] (TimeSeriesAnalysis 0 ''UF'' ''X'' 12)))
     (Str ''B'') =
   (state_after (decompose_series seasonal_decompose [two_groups] (TimeSeriesAnalysis 0 ''UF'' ''X'' 12)),
    Inr (Warning (Str ''B'')))"
proof -
  let ?s = "state_after (decompose_series seasonal_decompose [two_groups] (TimeSeriesAnalysis 0 ''UF'' ''X'' 12))"
  have a: "dom (results ?s) = set (successful_groups ?s)"
    using consistent_kept [of "TimeSeriesAnalysis 0 ''UF'' ''X'' 12" seasonal_decompose "[two_groups]"]
    by simp
  have b: "Str ''B'' \<notin> set (successful_groups ?s)"
    by (simp add: two_groups_evaluated)
  show ?thesis
    using lookup_miss_is_warning [OF a b] .
qed

section \<open>Missing values\<close>

text \<open>
  Claim C7. Let the table have both columns and let the decomposition follow the
  two-cycle rule. For every group, what is decomposed is the group's series with the
  rows of missing value taken out and every other row unchanged, and the group
  succeeds exactly when at least \<open>2 * period\<close> rows are left. The witness is the group of
  36 months with month 7 missing and period 12: 35 rows are left, and it succeeds.
\<close>

theorem missing_rows_excluded:
  assumes "g \<in> set (columns (h ! a))" and "v \<in> set (columns (h ! a))"
    and "two_complete_cycles sd p" and "k \<in> distinct_groups (h ! a) g"
  shows "results (state_after (decompose_series sd h (TimeSeriesAnalysis a g v p))) k =
           (case sd (partition_series (h ! a) g v k) p of Inl e \<Rightarrow> None | Inr d \<Rightarrow> Some d) \<and>
         (k \<in> set (successful_groups (state_after (decompose_series sd h (TimeSeriesAnalysis a g v p))))
            \<longleftrightarrow> 2 * p \<le> int (non_missing_observations (h ! a) g v k))"
proof -
  note only = two_cycles_only_ValueError [OF assms(3)]
  have "results (state_after (decompose_series sd h (TimeSeriesAnalysis a g v p))) k =
           (case sd (partition_series (h ! a) g v k) p of Inl e \<Rightarrow> None | Inr d \<Rightarrow> Some d)"
    using decompose_series_attempted(3) [OF assms(1,2) only, of k] assms(4) by simp
  moreover have "k \<in> set (successful_groups (state_after (decompose_series sd h (TimeSeriesAnalysis a g v p))))
            \<longleftrightarrow> 2 * p \<le> int (non_missing_observations (h ! a) g v k)"
    using assms(4)
    by (simp add: decompose_series_attempted(2) [OF assms(1,2) only] group_keys_set
        two_cycles_success [OF assms(3)] partition_series_length)
  ultimately show ?thesis by simp
qed

lemma one_gap_evaluated:
  "Str ''A'' \<in> distinct_groups one_gap ''UF'' \<and>
   non_missing_observations one_gap ''UF'' ''X'' (Str ''A'') = 35 \<and>
   map fst (items (partition_series one_gap ''UF'' ''X'' (Str ''A''))) =
     map (\<lambda>i. Some (Timestamp i)) ([1..6] @ [8..36])"
  by code_simp

theorem missing_rows_excluded_witness:
  "results (state_after (decompose_series seasonal_decompose [one_gap]
        (TimeSeriesAnalysis 0 ''UF'' ''X'' 12))) (Str ''A'') =
     (case seasonal_decompose (partition_series one_gap ''UF'' ''X'' (Str ''A'')) 12 of
        Inl e \<Rightarrow> None | Inr d \<Rightarrow> Some d) \<and>
   map fst (items (partition_series one_gap ''UF'' ''X'' (Str ''A''))) =
     map (\<lambda>i. Some (Timestamp i)) ([1..6] @ [8..36]) \<and>
   non_missing_observations one_gap ''UF'' ''X'' (Str ''A'') = 35 \<and>
   Str ''A'' \<in> set (successful_groups (state_after (decompose_series seasonal_decompose [one_gap]
        (TimeSeriesAnalysis 0 ''UF'' ''X'' 12))))"
proof -
  have cols: "''UF'' \<in> set (columns ([one_gap] ! 0))" "''X'' \<in> set (columns ([one_gap] ! 0))"
    by (simp_all add: one_gap_def)
  have grp: "Str ''A'' \<in> distinct_groups ([one_gap] ! 0) ''UF''"
    using one_gap_evaluated by simp
  show ?thesis
    using missing_rows_excluded [OF cols seasonal_decompose_two_cycles grp, of 12]
      one_gap_evaluated
    by simp
qed

section \<open>What plotting does to the stored result\<close>

text \<open>
  Claim C8, as stated, fails: for the table \<open>text_index\<close>, whose index is text, the
  stored observed sequence has the labels 2020-01 and 2020-02 before the group is
  plotted and two timestamps after.
\<close>

theorem plot_changes_index_counterexample:
  "map_option (\<lambda>d. map fst (items (observed d)))
     (results (state_after (decompose_series seasonal_decompose [text_index]
        (TimeSeriesAnalysis 0 ''UF'' ''X'' 1))) (Str ''A'')) =
     Some [Some (Str ''2020-01''), Some (Str ''2020-02'')] \<and>
   map_option (\<lambda>d. map fst (items (observed d)))
     (results (fst (plot_decomposition month_to_datetime four_traces
        (state_after (decompose_series seasonal_decompose [text_index]
           (TimeSeriesAnalysis 0 ''UF'' ''X'' 1))) (Str ''A''))) (Str ''A'')) =
     Some [Some (Timestamp 1), Some (Timestamp 2)]"
  by code_simp

lemma ensure_datetime_data:
  "map snd (items (ensure_datetime to_dt x)) = map snd (items x)"
  by (simp add: ensure_datetime_def case_prod_unfold)

lemma ensure_datetime_same:
  "series_index_type x = DatetimeIndex \<Longrightarrow> ensure_datetime to_dt x = x"
  by (simp add: ensure_datetime_def)

lemma ensure_datetime_converted:
  "series_index_type x \<noteq> DatetimeIndex \<Longrightarrow>
   series_index_type (ensure_datetime to_dt x) = DatetimeIndex \<and>
   map fst (items (ensure_datetime to_dt x)) = map to_dt (map fst (items x))"
  by (simp add: ensure_datetime_def case_prod_unfold)

lemma plot_decomposition_state:
  assumes "results s k = Some d"
  shows "fst (plot_decomposition to_dt plotly_chart s k) =
     s\<lparr>results := (results s)(k \<mapsto>
        \<lparr>observed = ensure_datetime to_dt (observed d),
         seasonal = ensure_datetime to_dt (seasonal d),
         trend = ensure_datetime to_dt (trend d),
         resid = ensure_datetime to_dt (resid d)\<rparr>)\<rparr>"
  using assms by (simp add: plot_decomposition_def Let_def split: sum.splits)

text \<open>
  Claim C8, amended. Plotting a group leaves the values of its four stored sequences
  unchanged, leaves a sequence whose index is a DatetimeIndex unchanged altogether, and
  replaces any other index, in the stored result, by a DatetimeIndex of the converted
  labels. The succeeded list and the results of the other groups stay as they are.
\<close>

theorem plot_keeps_data:
  assumes "results s k = Some d"
    and "c = observed \<or> c = seasonal \<or> c = trend \<or> c = resid"
  shows "\<exists>d'. results (fst (plot_decomposition to_dt plotly_chart s k)) k = Some d' \<and>
      map snd (items (c d')) = map snd (items (c d)) \<and>
      (if series_index_type (c d) = DatetimeIndex then c d' = c d
       else series_index_type (c d') = DatetimeIndex \<and>
            map fst (items (c d')) = map to_dt (map fst (items (c d)))) \<and>
      successful_groups (fst (plot_decomposition to_dt plotly_chart s k)) = successful_groups s \<and>
      (\<forall>k'. k' \<noteq> k \<longrightarrow>
         results (fst (plot_decomposition to_dt plotly_chart s k)) k' = results s k')"
  using assms(2)
  by (auto simp: plot_decomposition_state [OF assms(1)] ensure_datetime_data
      ensure_datetime_same ensure_datetime_converted)

lemma text_index_evaluated:
  "results (state_after (decompose_series seasonal_decompose [text_index]
        (TimeSeriesAnalysis 0 ''UF'' ''X'' 1))) (Str ''A'') = Some text_index_result"
  by code_simp

theorem plot_keeps_data_witness:
  "\<exists>d'. results (fst (plot_decomposition month_to_datetime four_traces
        (state_after (decompose_series seasonal_decompose [text_index]
           (TimeSeriesAnalysis 0 ''UF'' ''X'' 1))) (Str ''A''))) (Str ''A'') = Some d' \<and>
      map snd (items (observed d')) = [Some (Num 5), Some (Num 6)] \<and>
      series_index_type (observed d') = DatetimeIndex \<and>
      map fst (items (observed d')) = [Some (Timestamp 1), Some (Timestamp 2)]"
  using plot_keeps_data [OF text_index_evaluated, of observed month_to_datetime four_traces]
  by (auto simp: text_index_result_def)

section \<open>The caller's table\<close>

text \<open>
  Claim C9. \<^verbatim>\<open>decompose_series\<close> changes no table that existed before the call, the
  caller's table among them: the one in-place operation, \<^verbatim>\<open>dropna\<close>, is applied to
  the copy made inside the loop. The object still refers to the same table.
\<close>

theorem input_table_unchanged:
  assumes "a < length h"
  shows "store_after (decompose_series sd h s) ! a = h ! a \<and>
         df (state_after (decompose_series sd h s)) = df s"
proof (cases "groupby_col s \<in> set (columns (h ! df s)) \<or>
      index_name (h ! df s) = Some (groupby_col s)")
  case True
  then show ?thesis using assms by (simp add: store_kept decompose_series_known(1))
next
  case False
  then show ?thesis by (simp add: decompose_series_unknown)
qed

theorem input_table_unchanged_witness:
  "store_after (decompose_series seasonal_decompose [two_groups]
      (TimeSeriesAnalysis 0 ''UF'' ''X'' 12)) ! 0 = two_groups \<and>
   df (state_after (decompose_series seasonal_decompose [two_groups]
      (TimeSeriesAnalysis 0 ''UF'' ''X'' 12))) = 0"
  using input_table_unchanged [of 0 "[two_groups]" seasonal_decompose "TimeSeriesAnalysis 0 ''UF'' ''X'' 12"]
  by simp

section \<open>The succeeded list and the result dict\<close>

text \<open>
  Claim C10. After one invocation of \<^verbatim>\<open>decompose_series\<close> on a newly constructed
  object, the succeeded list has no duplicate and its keys are exactly the keys of the
  result dict, also when the invocation ends in an exception.
\<close>

theorem succeeded_list_matches_results:
  "distinct (successful_groups (state_after (decompose_series sd h (TimeSeriesAnalysis a g v p)))) \<and>
   set (successful_groups (state_after (decompose_series sd h (TimeSeriesAnalysis a g v p)))) =
   dom (results (state_after (decompose_series sd h (TimeSeriesAnalysis a g v p))))"
  using successful_groups_distinct [of sd h a g v p]
    consistent_kept [of "TimeSeriesAnalysis a g v p" sd h]
  by simp

theorem succeeded_list_matches_results_witness:
  "distinct (successful_groups (state_after (decompose_series seasonal_decompose [two_groups]
      (TimeSeriesAnalysis 0 ''UF'' ''X'' 12)))) \<and>
   set (successful_groups (state_after (decompose_series seasonal_decompose [two_groups]
      (TimeSeriesAnalysis 0 ''UF'' ''X'' 12)))) =
   dom (results (state_after (decompose_series seasonal_decompose [two_groups]
      (TimeSeriesAnalysis 0 ''UF'' ''X'' 12)))) \<and>
   successful_groups (state_after (decompose_series seasonal_decompose [two_groups]
      (TimeSeriesAnalysis 0 ''UF'' ''X'' 12))) = [Str ''A'']"
  using succeeded_list_matches_results [of seasonal_decompose "[two_groups]" 0 "''UF''" "''X''" 12]
    two_groups_evaluated
  by simp

end
